theory Spec2Isabelle
  imports Complex_Main
begin

unbundle bit_operations_syntax

section \<open>Framework value types\<close>

text \<open>
  The toolkit draws through the GUI framework's value classes.  Only the members the
  rendering code touches are modelled.  A C++ \<open>double\<close> is modelled as a real number
  (no NaN, no infinities; where the code compares results of its own double arithmetic,
  in the nearest-point query, the rounding of each operation is a parameter of the model,
  elsewhere values are exact); a C++ \<open>int\<close> is modelled as an unbounded
  integer: the properties below concern index ranges that \<open>drawSeries\<close> has resolved or
  that lie inside the series, where every index computed stays between \<open>-1\<close> and twice
  the length of the series, so no wrap-around occurs for a series that fits into memory.
\<close>

record QPointF =
  xp :: real
  yp :: real

definition QPointF :: "real \<Rightarrow> real \<Rightarrow> QPointF" where
  "QPointF a b = \<lparr> xp = a, yp = b \<rparr>"

record QPoint =
  ixp :: int
  iyp :: int

record QSizeF =
  wd :: real
  ht :: real

text \<open>A \<open>QRectF\<close> stores its top-left corner and its extent.\<close>

record QRectF =
  rect_x :: real
  rect_y :: real
  rect_w :: real
  rect_h :: real

definition left :: "QRectF \<Rightarrow> real" where "left r = rect_x r"
definition top :: "QRectF \<Rightarrow> real" where "top r = rect_y r"
definition right :: "QRectF \<Rightarrow> real" where "right r = rect_x r + rect_w r"
definition bottom :: "QRectF \<Rightarrow> real" where "bottom r = rect_y r + rect_h r"
definition width :: "QRectF \<Rightarrow> real" where "width r = rect_w r"
definition height :: "QRectF \<Rightarrow> real" where "height r = rect_h r"

definition topLeft :: "QRectF \<Rightarrow> QPointF" where
  "topLeft r = QPointF (rect_x r) (rect_y r)"
definition bottomLeft :: "QRectF \<Rightarrow> QPointF" where
  "bottomLeft r = QPointF (rect_x r) (rect_y r + rect_h r)"
definition topRight :: "QRectF \<Rightarrow> QPointF" where
  "topRight r = QPointF (rect_x r + rect_w r) (rect_y r)"
definition bottomRight :: "QRectF \<Rightarrow> QPointF" where
  "bottomRight r = QPointF (rect_x r + rect_w r) (rect_y r + rect_h r)"
definition center :: "QRectF \<Rightarrow> QPointF" where
  "center r = QPointF (rect_x r + rect_w r / 2) (rect_y r + rect_h r / 2)"

text \<open>\<open>adjusted(dx1, dy1, dx2, dy2)\<close> moves the left, top, right and bottom edge.\<close>

definition adjusted :: "QRectF \<Rightarrow> real \<Rightarrow> real \<Rightarrow> real \<Rightarrow> real \<Rightarrow> QRectF" where
  "adjusted r dx1 dy1 dx2 dy2 =
     \<lparr> rect_x = rect_x r + dx1, rect_y = rect_y r + dy1,
       rect_w = rect_w r + dx2 - dx1, rect_h = rect_h r + dy2 - dy1 \<rparr>"

definition isValid_rect :: "QRectF \<Rightarrow> bool" where
  "isValid_rect r = (rect_w r > 0 \<and> rect_h r > 0)"

definition isEmpty_rect :: "QRectF \<Rightarrow> bool" where
  "isEmpty_rect r = (rect_w r \<le> 0 \<or> rect_h r \<le> 0)"

definition setSize :: "QRectF \<Rightarrow> QSizeF \<Rightarrow> QRectF" where
  "setSize r s = r \<lparr> rect_w := wd s, rect_h := ht s \<rparr>"

definition moveCenter :: "QRectF \<Rightarrow> QPointF \<Rightarrow> QRectF" where
  "moveCenter r p = r \<lparr> rect_x := xp p - rect_w r / 2, rect_y := yp p - rect_h r / 2 \<rparr>"

text \<open>The integer rectangle of the painter's window stores its two corners.\<close>

record QRect =
  rx1 :: int
  ry1 :: int
  rx2 :: int
  ry2 :: int

definition isEmpty_window :: "QRect \<Rightarrow> bool" where
  "isEmpty_window r = (rx1 r > rx2 r \<or> ry1 r > ry2 r)"

datatype QColor = InvalidColor | Color nat

definition isValid_color :: "QColor \<Rightarrow> bool" where
  "isValid_color c = (c \<noteq> InvalidColor)"

datatype PenStyle = NoPen | SolidLine | DashLine
datatype BrushStyle = NoBrush | SolidPattern | Dense4Pattern

record QPen =
  pen_style :: PenStyle
  pen_color :: QColor
  pen_width :: real

record QBrush =
  brush_style :: BrushStyle
  brush_color :: QColor

text \<open>\<open>QPen(Qt::PenStyle)\<close> and \<open>QBrush(QColor)\<close>: a black pen of width 0 with the given
  style, and a solid brush of the given colour.\<close>

definition QPen_of_style :: "PenStyle \<Rightarrow> QPen" where
  "QPen_of_style s = \<lparr> pen_style = s, pen_color = Color 0, pen_width = 0 \<rparr>"

definition QBrush_of_color :: "QColor \<Rightarrow> QBrush" where
  "QBrush_of_color c = \<lparr> brush_style = SolidPattern, brush_color = c \<rparr>"

datatype Orientation = Horizontal | Vertical

record QwtScaleMap =
  transform :: "real \<Rightarrow> real"

datatype SymbolStyle = NoSymbol | Ellipse | Rect | Diamond

record QwtSymbol =
  sym_style :: SymbolStyle
  sym_size :: QSizeF
  sym_brush :: QBrush
  sym_pen :: QPen

section \<open>The painter surface\<close>

text \<open>
  A painter is a device with a window; a null painter pointer is \<open>None\<close>.  Every request
  the rendering code sends to the painter (directly or through \<open>QwtPainter\<close>) is recorded,
  in order, as one command; a drawing function returns the list of the commands it
  issued.
\<close>

record QPainter =
  window :: QRect

datatype cmd =
    Save
  | Restore
  | SetPen QPen
  | SetBrush QBrush
  | DrawPolyline "QPointF list"
  | DrawPolygon "QPointF list"
  | DrawLine QPointF QPointF
  | DrawPoint QPointF
  | FillRect QRectF QBrush
  | DrawSymbol QwtSymbol QRectF

section \<open>The curve renderer (qwt\_plot\_curve.cpp)\<close>

datatype CurveStyle = NoCurve | Lines | Sticks | Steps | Dots | UserCurve nat

text \<open>
  Modelled from the spec: the enumerators of the attribute sets are declared in
  qwt\_plot\_curve.h, which is not among the sources; the spec describes each set as
  independent, combinable boolean flags, so each flag is a bit of its own.
\<close>

definition Inverted :: int where "Inverted = 1"
definition Fitted :: int where "Fitted = 2"
definition ClipPolygons :: int where "ClipPolygons = 1"
definition LegendShowLine :: int where "LegendShowLine = 1"
definition LegendShowSymbol :: int where "LegendShowSymbol = 2"
definition LegendShowBrush :: int where "LegendShowBrush = 4"

record QwtPlot =
  canvasMap :: "int \<Rightarrow> QwtScaleMap"

text \<open>
  The curve object: the members of \<open>PrivateData\<close>, the series \<open>d_series\<close>, and what the
  base classes answer for \<open>orientation()\<close>, \<open>plot()\<close>, \<open>xAxis()\<close> and \<open>yAxis()\<close>.  The
  curve fitter is a pointer (\<open>None\<close> when null) to an object whose \<open>fitCurve\<close> maps a
  polygon to a polygon.
\<close>

record QwtPlotCurve =
  style :: CurveStyle
  reference :: real
  symbol :: QwtSymbol
  curveFitter :: "(QPointF list \<Rightarrow> QPointF list) option"
  pen :: QPen
  brush :: QBrush
  attributes :: int
  paintAttributes :: int
  legendAttributes :: int
  d_series :: "QPointF list"
  orientation :: Orientation
  plot :: "QwtPlot option"
  xAxis :: int
  yAxis :: int

definition dataSize :: "QwtPlotCurve \<Rightarrow> int" where
  "dataSize c = int (length (d_series c))"

text \<open>Reading a sample outside the series is undefined in the source: \<open>None\<close>.\<close>

definition sample :: "QPointF list \<Rightarrow> int \<Rightarrow> QPointF option" where
  "sample s i = (if 0 \<le> i \<and> i < int (length s) then Some (s ! nat i) else None)"

definition testCurveAttribute :: "QwtPlotCurve \<Rightarrow> int \<Rightarrow> bool" where
  "testCurveAttribute c attribute = (attributes c AND attribute \<noteq> 0)"

definition setCurveFitter :: "(QPointF list \<Rightarrow> QPointF list) option \<Rightarrow> QwtPlotCurve \<Rightarrow> QwtPlotCurve" where
  "setCurveFitter f c = c \<lparr> curveFitter := f \<rparr>"

text \<open>
  Modelled from the spec: \<open>qwtLim\<close> is declared in qwt\_math.h, which is not among the
  sources; the spec says that range resolution clamps the index into the interval.
\<close>

definition qwtLim :: "int \<Rightarrow> int \<Rightarrow> int \<Rightarrow> int" where
  "qwtLim v lo hi = (if v < lo then lo else if v > hi then hi else v)"

text \<open>\<open>verifyRange\<close> returns the count together with the two indices it updates.\<close>

definition verifyRange :: "int \<Rightarrow> int \<Rightarrow> int \<Rightarrow> int \<times> int \<times> int" where
  "verifyRange sz i1 i2 =
     (if sz < 1 then (0, i1, i2)
      else let j1 = qwtLim i1 0 (sz - 1);
               j2 = qwtLim i2 0 (sz - 1)
           in if j1 > j2 then (j1 - j2 + 1, j2, j1) else (j2 - j1 + 1, j1, j2))"

definition transformed :: "QwtScaleMap \<Rightarrow> QwtScaleMap \<Rightarrow> QPointF \<Rightarrow> QPointF" where
  "transformed xMap yMap s = QPointF (transform xMap (xp s)) (transform yMap (yp s))"

text \<open>The loop \<open>for (i = from; i <= to; i++)\<close> reading \<open>sample(i)\<close> and handing the
  transformed sample to the loop body \<open>f\<close>; the results are collected in order.\<close>

fun forSamples :: "QPointF list \<Rightarrow> QwtScaleMap \<Rightarrow> QwtScaleMap \<Rightarrow> (QPointF \<Rightarrow> 'a) \<Rightarrow> int list \<Rightarrow> 'a list option" where
  "forSamples s xMap yMap f [] = Some []"
| "forSamples s xMap yMap f (i # is) =
     (case sample s i of
        None \<Rightarrow> None
      | Some p \<Rightarrow>
          (case forSamples s xMap yMap f is of
             None \<Rightarrow> None
           | Some rs \<Rightarrow> Some (f (transformed xMap yMap p) # rs)))"

definition closePolyline :: "QwtPlotCurve \<Rightarrow> QwtScaleMap \<Rightarrow> QwtScaleMap \<Rightarrow> QPointF list \<Rightarrow> QPointF list" where
  "closePolyline c xMap yMap polygon =
     (if length polygon < 2 then polygon
      else if orientation c = Vertical then
        (let refY = transform yMap (reference c);
             polygon1 = polygon @ [QPointF (xp (last polygon)) refY]
         in polygon1 @ [QPointF (xp (hd polygon1)) refY])
      else
        (let refX = transform xMap (reference c);
             polygon1 = polygon @ [QPointF refX (yp (last polygon))]
         in polygon1 @ [QPointF refX (yp (hd polygon1))]))"

definition fillCurve :: "QwtPlotCurve \<Rightarrow> QwtScaleMap \<Rightarrow> QwtScaleMap \<Rightarrow> QPointF list \<Rightarrow> cmd list" where
  "fillCurve c xMap yMap polygon =
     (if brush_style (brush c) = NoBrush then []
      else let polygon1 = closePolyline c xMap yMap polygon
           in if length polygon1 \<le> 2 then []
              else let b = (if \<not> isValid_color (brush_color (brush c))
                            then (brush c) \<lparr> brush_color := pen_color (pen c) \<rparr>
                            else brush c)
                   in [Save, SetPen (QPen_of_style NoPen), SetBrush b,
                       DrawPolygon polygon1, Restore])"

text \<open>
  The polygon clipper and the curve fitter are collaborators outside the sources; the
  clipper is a parameter \<open>clipPolygonF\<close> of every function that calls it.
\<close>

definition drawLines ::
  "(QRect \<Rightarrow> QPointF list \<Rightarrow> QPointF list) \<Rightarrow> QwtPlotCurve \<Rightarrow> QPainter \<Rightarrow>
   QwtScaleMap \<Rightarrow> QwtScaleMap \<Rightarrow> int \<Rightarrow> int \<Rightarrow> cmd list option" where
  "drawLines clipPolygonF c painter xMap yMap from to =
     (let sz = to - from + 1 in
      if sz \<le> 0 then Some []
      else
        (case forSamples (d_series c) xMap yMap (\<lambda>p. p) [from..to] of
           None \<Rightarrow> None
         | Some polyline \<Rightarrow>
             (let polyline1 =
                    (if attributes c AND Fitted \<noteq> 0 then
                       (case curveFitter c of
                          Some fitCurve \<Rightarrow> fitCurve polyline
                        | None \<Rightarrow> polyline)
                     else polyline);
                  polyline2 =
                    (if paintAttributes c AND ClipPolygons \<noteq> 0
                     then clipPolygonF (window painter) polyline1 else polyline1)
              in Some (DrawPolyline polyline2 #
                       (if brush_style (brush c) \<noteq> NoBrush
                        then fillCurve c xMap yMap polyline2 else [])))))"

definition drawSticks ::
  "QwtPlotCurve \<Rightarrow> QPainter \<Rightarrow> QwtScaleMap \<Rightarrow> QwtScaleMap \<Rightarrow> int \<Rightarrow> int \<Rightarrow> cmd list option" where
  "drawSticks c painter xMap yMap from to =
     (let x0 = transform xMap (reference c);
          y0 = transform yMap (reference c);
          ori = orientation c
      in forSamples (d_series c) xMap yMap
           (\<lambda>p. if ori = Horizontal then DrawLine (QPointF x0 (yp p)) (QPointF (xp p) (yp p))
                else DrawLine (QPointF (xp p) y0) (QPointF (xp p) (yp p)))
           [from..to])"

definition drawDots ::
  "(QRect \<Rightarrow> QPointF list \<Rightarrow> QPointF list) \<Rightarrow> QwtPlotCurve \<Rightarrow> QPainter \<Rightarrow>
   QwtScaleMap \<Rightarrow> QwtScaleMap \<Rightarrow> int \<Rightarrow> int \<Rightarrow> cmd list option" where
  "drawDots clipPolygonF c painter xMap yMap from to =
     (if isEmpty_window (window painter) then Some []
      else
        (let doFill = (brush_style (brush c) \<noteq> NoBrush) in
         case forSamples (d_series c) xMap yMap (\<lambda>p. p) [from..to] of
           None \<Rightarrow> None
         | Some points \<Rightarrow>
             Some (map DrawPoint points @
                   (if doFill then
                      (let polyline =
                             (if paintAttributes c AND ClipPolygons \<noteq> 0
                              then clipPolygonF (window painter) points else points)
                       in fillCurve c xMap yMap polyline)
                    else []))))"

text \<open>
  The loop of \<open>drawSteps\<close>: \<open>i\<close> runs over the samples, \<open>ip\<close> over the even positions of
  the preallocated array \<open>points\<close>; the corner at \<open>ip - 1\<close> reads back the vertex written
  at \<open>ip - 2\<close>.
\<close>

function drawSteps_loop ::
  "QPointF list \<Rightarrow> QwtScaleMap \<Rightarrow> QwtScaleMap \<Rightarrow> bool \<Rightarrow> int \<Rightarrow> int \<Rightarrow> nat \<Rightarrow>
   QPointF list \<Rightarrow> QPointF list option" where
  "drawSteps_loop s xMap yMap inverted to i ip points =
     (if i \<le> to then
        (case sample s i of
           None \<Rightarrow> None
         | Some smp \<Rightarrow>
             (let xi = transform xMap (xp smp);
                  yi = transform yMap (yp smp);
                  points1 =
                    (if ip > 0 then
                       (let p0 = points ! (ip - 2) in
                        if inverted then points[ip - 1 := QPointF (xp p0) yi]
                        else points[ip - 1 := QPointF xi (yp p0)])
                     else points);
                  points2 = points1[ip := QPointF xi yi]
              in drawSteps_loop s xMap yMap inverted to (i + 1) (ip + 2) points2))
      else Some points)"
  by pat_completeness auto
termination
  by (relation "measure (\<lambda>(s, xMap, yMap, inverted, to, i, ip, points). nat (to + 1 - i))") auto

text \<open>A polygon of negative size cannot be constructed: \<open>None\<close>.\<close>

definition drawSteps ::
  "(QRect \<Rightarrow> QPointF list \<Rightarrow> QPointF list) \<Rightarrow> QwtPlotCurve \<Rightarrow> QPainter \<Rightarrow>
   QwtScaleMap \<Rightarrow> QwtScaleMap \<Rightarrow> int \<Rightarrow> int \<Rightarrow> cmd list option" where
  "drawSteps clipPolygonF c painter xMap yMap from to =
     (if 2 * (to - from) + 1 < 0 then None
      else
        (let points = replicate (nat (2 * (to - from) + 1)) (QPointF 0 0);
             inverted = (if attributes c AND Inverted \<noteq> 0
                         then \<not> (orientation c = Vertical)
                         else orientation c = Vertical)
         in case drawSteps_loop (d_series c) xMap yMap inverted to from 0 points of
              None \<Rightarrow> None
            | Some polygon \<Rightarrow>
                (let polygon1 =
                       (if paintAttributes c AND ClipPolygons \<noteq> 0
                        then clipPolygonF (window painter) polygon else polygon)
                 in Some (DrawPolyline polygon1 #
                          (if brush_style (brush c) \<noteq> NoBrush
                           then fillCurve c xMap yMap polygon1 else [])))))"

definition drawSymbols ::
  "QwtPlotCurve \<Rightarrow> QwtSymbol \<Rightarrow> QwtScaleMap \<Rightarrow> QwtScaleMap \<Rightarrow> int \<Rightarrow> int \<Rightarrow> cmd list option" where
  "drawSymbols c smb xMap yMap from to =
     (let rect = setSize \<lparr> rect_x = 0, rect_y = 0, rect_w = 0, rect_h = 0 \<rparr> (sym_size smb) in
      case forSamples (d_series c) xMap yMap
             (\<lambda>p. DrawSymbol smb (moveCenter rect p)) [from..to] of
        None \<Rightarrow> None
      | Some ds \<Rightarrow> Some ([SetBrush (sym_brush smb), SetPen (sym_pen smb)] @ ds))"

definition drawCurve ::
  "(QRect \<Rightarrow> QPointF list \<Rightarrow> QPointF list) \<Rightarrow> QwtPlotCurve \<Rightarrow> QPainter \<Rightarrow> CurveStyle \<Rightarrow>
   QwtScaleMap \<Rightarrow> QwtScaleMap \<Rightarrow> int \<Rightarrow> int \<Rightarrow> cmd list option" where
  "drawCurve clipPolygonF c painter st xMap yMap from to =
     (case st of
        Lines \<Rightarrow>
          (if testCurveAttribute c Fitted
           then drawLines clipPolygonF c painter xMap yMap 0 (dataSize c - 1)
           else drawLines clipPolygonF c painter xMap yMap from to)
      | Sticks \<Rightarrow> drawSticks c painter xMap yMap from to
      | Steps \<Rightarrow> drawSteps clipPolygonF c painter xMap yMap from to
      | Dots \<Rightarrow> drawDots clipPolygonF c painter xMap yMap from to
      | NoCurve \<Rightarrow> Some []
      | UserCurve n \<Rightarrow> Some [])"

text \<open>The part of \<open>drawSeries\<close> that runs once the range is verified.\<close>

definition drawRange ::
  "(QRect \<Rightarrow> QPointF list \<Rightarrow> QPointF list) \<Rightarrow> QwtPlotCurve \<Rightarrow> QPainter \<Rightarrow>
   QwtScaleMap \<Rightarrow> QwtScaleMap \<Rightarrow> int \<Rightarrow> int \<Rightarrow> cmd list option" where
  "drawRange clipPolygonF c painter xMap yMap from to =
     (case drawCurve clipPolygonF c painter (style c) xMap yMap from to of
        None \<Rightarrow> None
      | Some cs \<Rightarrow>
          (if sym_style (symbol c) \<noteq> NoSymbol then
             (case drawSymbols c (symbol c) xMap yMap from to of
                None \<Rightarrow> None
              | Some ss \<Rightarrow>
                  Some ([Save, SetPen (pen c)] @ cs @ [Restore] @ [Save] @ ss @ [Restore]))
           else Some ([Save, SetPen (pen c)] @ cs @ [Restore])))"

definition drawSeries ::
  "(QRect \<Rightarrow> QPointF list \<Rightarrow> QPointF list) \<Rightarrow> QwtPlotCurve \<Rightarrow> QPainter option \<Rightarrow>
   QwtScaleMap \<Rightarrow> QwtScaleMap \<Rightarrow> int \<Rightarrow> int \<Rightarrow> cmd list option" where
  "drawSeries clipPolygonF c painter xMap yMap from to =
     (case painter of
        None \<Rightarrow> Some []
      | Some p \<Rightarrow>
          (if dataSize c \<le> 0 then Some []
           else
             (let to1 = (if to < 0 then dataSize c - 1 else to) in
              case verifyRange (dataSize c) from to1 of
                (n, from2, to2) \<Rightarrow>
                  (if n > 0 then drawRange clipPolygonF c p xMap yMap from2 to2
                   else Some []))))"

text \<open>
  The range the spec describes: a negative \<open>to\<close> stands for the last index, both indices
  are clamped into \<open>[0, s - 1]\<close>, and they are swapped when inverted.
\<close>

definition resolvedRange :: "int \<Rightarrow> int \<Rightarrow> int \<Rightarrow> int \<times> int" where
  "resolvedRange s from to =
     (let to1 = (if to < 0 then s - 1 else to);
          f = max 0 (min (s - 1) from);
          t = max 0 (min (s - 1) to1)
      in if f > t then (t, f) else (f, t))"

subsection \<open>Nearest-point query\<close>

text \<open>
  The loop body of \<open>closestPoint\<close> does arithmetic on doubles: every subtraction,
  multiplication, addition and square root returns the rounded value of the exact result.
  The rounding is the parameter \<open>rnd\<close> of the model, applied after each operation; the
  values compared by \<open>f < dmin\<close> are the computed (rounded) ones.  The coordinates of
  \<open>pos\<close> are integers and convert to doubles exactly.
\<close>

text \<open>
  Modelled from the spec: \<open>qwtSqr\<close> is declared in qwt\_math.h, which is not among the
  sources; the spec says that the query compares squared distances.
\<close>

definition qwtSqr :: "(real \<Rightarrow> real) \<Rightarrow> real \<Rightarrow> real" where
  "qwtSqr rnd v = rnd (v * v)"

text \<open>
  The loop \<open>for (i = 0; i < dataSize(); i++)\<close> visits the samples in order; \<open>i\<close> is the
  index of the sample at the head of the remaining list, and the pair is
  \<open>(index, dmin)\<close>.
\<close>

fun closestPoint_loop ::
  "(real \<Rightarrow> real) \<Rightarrow> QwtScaleMap \<Rightarrow> QwtScaleMap \<Rightarrow> QPoint \<Rightarrow> QPointF list \<Rightarrow> int \<Rightarrow>
   int \<times> real \<Rightarrow> int \<times> real" where
  "closestPoint_loop rnd xMap yMap pos [] i (index, dmin) = (index, dmin)"
| "closestPoint_loop rnd xMap yMap pos (smp # rest) i (index, dmin) =
     (let cx = rnd (transform xMap (xp smp) - real_of_int (ixp pos));
          cy = rnd (transform yMap (yp smp) - real_of_int (iyp pos));
          f = rnd (qwtSqr rnd cx + qwtSqr rnd cy)
      in if f < dmin then closestPoint_loop rnd xMap yMap pos rest (i + 1) (i, f)
         else closestPoint_loop rnd xMap yMap pos rest (i + 1) (index, dmin))"

text \<open>
  The optional output \<open>dist\<close> (here \<open>dst\<close>) is \<open>None\<close> for a null pointer and otherwise holds the
  value stored at the pointer; the function returns the index and the output after the
  call.
\<close>

definition closestPoint ::
  "(real \<Rightarrow> real) \<Rightarrow> QwtPlotCurve \<Rightarrow> QPoint \<Rightarrow> real option \<Rightarrow> int \<times> real option" where
  "closestPoint rnd c pos dst =
     (case plot c of
        None \<Rightarrow> (- 1, dst)
      | Some plt \<Rightarrow>
          (if dataSize c \<le> 0 then (- 1, dst)
           else
             (let xMap = canvasMap plt (xAxis c);
                  yMap = canvasMap plt (yAxis c)
              in case closestPoint_loop rnd xMap yMap pos (d_series c) 0 (- 1, 10000000000) of
                   (index, dmin) \<Rightarrow>
                     (index, (case dst of None \<Rightarrow> None
                              | Some d \<Rightarrow> Some (rnd (sqrt dmin)))))))"

text \<open>
  The squared device-space distance of a sample to a position as the loop body computes
  it: the value \<open>f\<close> of the source, with the rounding of every operation.
\<close>

definition sqrDistance ::
  "(real \<Rightarrow> real) \<Rightarrow> QwtScaleMap \<Rightarrow> QwtScaleMap \<Rightarrow> QPoint \<Rightarrow> QPointF \<Rightarrow> real" where
  "sqrDistance rnd xMap yMap pos smp =
     rnd (qwtSqr rnd (rnd (transform xMap (xp smp) - real_of_int (ixp pos))) +
          qwtSqr rnd (rnd (transform yMap (yp smp) - real_of_int (iyp pos))))"

subsection \<open>Legend identifier\<close>

text \<open>The conversion of a \<open>double\<close> to \<open>int\<close> truncates towards zero; \<open>qRound\<close> is the
  framework's rounding built on it.\<close>

definition double_to_int :: "real \<Rightarrow> int" where
  "double_to_int d = (if d \<ge> 0 then \<lfloor>d\<rfloor> else \<lceil>d\<rceil>)"

definition qRound :: "real \<Rightarrow> int" where
  "qRound d =
     (if d \<ge> 0 then double_to_int (d + 1 / 2)
      else double_to_int (d - real_of_int (double_to_int (d - 1)) + 1 / 2) + double_to_int (d - 1))"

text \<open>
  The two blocks of \<open>drawLegendIdentifier\<close> that scale the symbol size down.  A division
  by a zero ratio has no defined rounding: \<open>None\<close>.
\<close>

definition scaledSymbolSize :: "QRectF \<Rightarrow> QSizeF \<Rightarrow> QSizeF option" where
  "scaledSymbolSize rect symbolSize =
     (let symbolSize1 =
            (if width rect < wd symbolSize then
               (let ratio = wd symbolSize / width rect in
                \<lparr> wd = width rect, ht = real_of_int (qRound (ht symbolSize / ratio)) \<rparr>)
             else symbolSize)
      in if height rect < ht symbolSize1 then
           (let ratio = wd symbolSize1 / width rect in
            if ratio = 0 then None
            else Some \<lparr> wd = real_of_int (qRound (wd symbolSize1 / ratio)), ht = height rect \<rparr>)
         else Some symbolSize1)"

definition drawLegendIdentifier :: "QwtPlotCurve \<Rightarrow> QRectF \<Rightarrow> cmd list option" where
  "drawLegendIdentifier c rect =
     (if isEmpty_rect rect then Some []
      else
        (let dim = double_to_int (min (width rect) (height rect));
             r = moveCenter \<lparr> rect_x = 0, rect_y = 0, rect_w = real_of_int dim,
                              rect_h = real_of_int dim \<rparr> (center rect);
             part1 =
               (if legendAttributes c = 0 then
                  (let brush1 =
                         (if brush_style (brush c) = NoBrush then
                            (if style c \<noteq> NoCurve then QBrush_of_color (pen_color (pen c))
                             else if sym_style (symbol c) \<noteq> NoSymbol
                             then QBrush_of_color (pen_color (sym_pen (symbol c)))
                             else brush c)
                          else brush c)
                   in if brush_style brush1 \<noteq> NoBrush then [FillRect r brush1] else [])
                else []);
             part2 =
               (if legendAttributes c AND LegendShowBrush \<noteq> 0 then
                  (if brush_style (brush c) \<noteq> NoBrush then [FillRect r (brush c)] else [])
                else []);
             part3 =
               (if legendAttributes c AND LegendShowLine \<noteq> 0 then
                  (if pen c \<noteq> QPen_of_style NoPen then
                     [SetPen (pen c),
                      DrawLine (QPointF (left rect) (yp (center rect)))
                               (QPointF (right rect - 1) (yp (center rect)))]
                   else [])
                else [])
         in if legendAttributes c AND LegendShowSymbol \<noteq> 0 \<and> sym_style (symbol c) \<noteq> NoSymbol then
              (case scaledSymbolSize rect (sym_size (symbol c)) of
                 None \<Rightarrow> None
               | Some symbolSize \<Rightarrow>
                   (let symbolRect =
                          moveCenter
                            (setSize \<lparr> rect_x = 0, rect_y = 0, rect_w = 0, rect_h = 0 \<rparr> symbolSize)
                            (center rect)
                    in Some (part1 @ part2 @ part3 @
                             [SetBrush (sym_brush (symbol c)), SetPen (sym_pen (symbol c)),
                              DrawSymbol (symbol c) symbolRect])))
            else Some (part1 @ part2 @ part3)))"

section \<open>The column symbol renderer (qwt\_column\_symbol.cpp)\<close>

record QPalette =
  pal_light :: QBrush
  pal_dark :: QBrush
  pal_window :: QBrush

datatype QwtText = QwtText string

datatype ColumnStyle = NoStyle | Box
datatype FrameStyle = NoFrame | Plain | Raised

record QwtColumnSymbol =
  col_style :: ColumnStyle
  frameStyle :: FrameStyle
  palette :: QPalette
  label :: QwtText
  lineWidth :: int

definition operator_eq :: "QwtColumnSymbol \<Rightarrow> QwtColumnSymbol \<Rightarrow> bool" where
  "operator_eq this other =
     (col_style this = col_style other \<and>
      palette this = palette other \<and>
      label this = label other \<and>
      lineWidth this = lineWidth other \<and>
      frameStyle this = frameStyle other)"

definition operator_ne :: "QwtColumnSymbol \<Rightarrow> QwtColumnSymbol \<Rightarrow> bool" where
  "operator_ne this other = (\<not> operator_eq this other)"

text \<open>
  Modelled from the spec: the interval and column-rectangle classes are declared in
  headers that are not among the sources.  The spec describes a column rectangle as a
  rectangle in data space with a horizontal and a vertical interval, each carrying the
  border-exclusion flags exclude-minimum and exclude-maximum; \<open>toRect\<close> is the
  rectangle the two intervals span.
\<close>

definition ExcludeMinimum :: int where "ExcludeMinimum = 1"
definition ExcludeMaximum :: int where "ExcludeMaximum = 2"

record QwtDoubleInterval =
  minValue :: real
  maxValue :: real
  borderFlags :: int

record QwtColumnRect =
  hInterval :: QwtDoubleInterval
  vInterval :: QwtDoubleInterval

definition toRect :: "QwtColumnRect \<Rightarrow> QRectF" where
  "toRect rect =
     \<lparr> rect_x = minValue (hInterval rect), rect_y = minValue (vInterval rect),
       rect_w = maxValue (hInterval rect) - minValue (hInterval rect),
       rect_h = maxValue (vInterval rect) - minValue (vInterval rect) \<rparr>"

text \<open>\<open>setPen(QColor)\<close> selects a solid pen of width 0 in that colour; a polygon made
  from a rectangle is its closed outline.\<close>

definition QPen_of_color :: "QColor \<Rightarrow> QPen" where
  "QPen_of_color c = \<lparr> pen_style = SolidLine, pen_color = c, pen_width = 0 \<rparr>"

definition QPolygonF_of_rect :: "QRectF \<Rightarrow> QPointF list" where
  "QPolygonF_of_rect r = [topLeft r, topRight r, bottomRight r, bottomLeft r, topLeft r]"

text \<open>
  The file-static \<open>drawBox\<close> and \<open>drawPanel\<close>.  Polygon subtraction belongs to the
  framework and is the parameter \<open>subtracted\<close>.
\<close>

definition drawBox_static ::
  "(QPointF list \<Rightarrow> QPointF list \<Rightarrow> QPointF list) \<Rightarrow> QRectF \<Rightarrow> QPalette \<Rightarrow> real \<Rightarrow> cmd list" where
  "drawBox_static subtracted rect pal lw =
     (let fillWindow = (\<lambda>lw'.
            (let windowRect = adjusted rect lw' lw' (- lw' + 1) (- lw' + 1)
             in if isValid_rect windowRect then [FillRect windowRect (pal_window pal)] else []))
      in if lw > 0 then
           (if width rect = 0 then
              [SetPen (QPen_of_color (brush_color (pal_dark pal))),
               DrawLine (topLeft rect) (bottomLeft rect)]
            else if height rect = 0 then
              [SetPen (QPen_of_color (brush_color (pal_dark pal))),
               DrawLine (topLeft rect) (topRight rect)]
            else
              (let lw1 = min lw (height rect / 2 - 1);
                   lw2 = min lw1 (width rect / 2 - 1);
                   outerRect = adjusted rect 0 0 1 1;
                   polygon = QPolygonF_of_rect outerRect;
                   polygon1 =
                     (if width outerRect > 2 * lw2 \<and> height outerRect > 2 * lw2 then
                        (let innerRect = adjusted outerRect lw2 lw2 (- lw2) (- lw2)
                         in subtracted polygon (QPolygonF_of_rect innerRect))
                      else polygon)
               in [SetPen (QPen_of_style NoPen), SetBrush (pal_dark pal), DrawPolygon polygon1]
                  @ fillWindow lw2))
         else fillWindow lw)"

definition drawPanel :: "QRectF \<Rightarrow> QPalette \<Rightarrow> real \<Rightarrow> cmd list" where
  "drawPanel rect pal lw =
     (if lw > 0 then
        (if width rect = 0 then
           [SetPen (QPen_of_color (brush_color (pal_window pal))),
            DrawLine (topLeft rect) (bottomLeft rect)]
         else if height rect = 0 then
           [SetPen (QPen_of_color (brush_color (pal_window pal))),
            DrawLine (topLeft rect) (topRight rect)]
         else
           (let lw1 = min lw (height rect / 2 - 1);
                lw2 = min lw1 (width rect / 2 - 1);
                outerRect = adjusted rect 0 0 1 1;
                innerRect = adjusted outerRect lw2 lw2 (- lw2) (- lw2);
                lines0 = [bottomLeft outerRect, topLeft outerRect, topRight outerRect,
                          topRight innerRect, topLeft innerRect, bottomLeft innerRect];
                lines1 = [topRight outerRect, bottomRight outerRect, bottomLeft outerRect,
                          bottomLeft innerRect, bottomRight innerRect, topRight innerRect]
            in [SetPen (QPen_of_style NoPen), SetBrush (pal_light pal), DrawPolygon lines0,
                SetBrush (pal_dark pal), DrawPolygon lines1,
                FillRect (adjusted rect lw2 lw2 (- lw2 + 1) (- lw2 + 1)) (pal_window pal)]))
      else [FillRect (adjusted rect lw lw (- lw + 1) (- lw + 1)) (pal_window pal)])"

text \<open>The rectangle \<open>r\<close> of the member \<open>drawBox\<close> after its four border adjustments.\<close>

definition borderAdjusted :: "QwtColumnRect \<Rightarrow> QRectF" where
  "borderAdjusted rect =
     (let r = toRect rect;
          r1 = (if borderFlags (hInterval rect) AND ExcludeMinimum \<noteq> 0
                then adjusted r 1 0 0 0 else r);
          r2 = (if borderFlags (hInterval rect) AND ExcludeMaximum \<noteq> 0
                then adjusted r1 0 0 (- 1) 0 else r1);
          r3 = (if borderFlags (vInterval rect) AND ExcludeMinimum \<noteq> 0
                then adjusted r2 0 1 0 0 else r2);
          r4 = (if borderFlags (vInterval rect) AND ExcludeMaximum \<noteq> 0
                then adjusted r3 0 0 0 (- 1) else r3)
      in r4)"

definition drawBox ::
  "(QPointF list \<Rightarrow> QPointF list \<Rightarrow> QPointF list) \<Rightarrow> QwtColumnSymbol \<Rightarrow> QwtColumnRect \<Rightarrow> cmd list" where
  "drawBox subtracted this rect =
     (let r = borderAdjusted rect in
      case frameStyle this of
        Raised \<Rightarrow> drawPanel r (palette this) (real_of_int (lineWidth this))
      | Plain \<Rightarrow> drawBox_static subtracted r (palette this) (real_of_int (lineWidth this))
      | NoFrame \<Rightarrow> [FillRect (adjusted r 0 0 (- 1) (- 1)) (pal_window (palette this))])"

definition draw ::
  "(QPointF list \<Rightarrow> QPointF list \<Rightarrow> QPointF list) \<Rightarrow> QwtColumnSymbol \<Rightarrow> QwtColumnRect \<Rightarrow> cmd list" where
  "draw subtracted this rect =
     [Save] @
     (case col_style this of
        Box \<Rightarrow> drawBox subtracted this rect
      | NoStyle \<Rightarrow> []) @
     [Restore]"

subsection \<open>The staircase of the spec\<close>

text \<open>
  The staircase the spec describes: between two consecutive transformed samples one
  corner vertex is inserted; it takes one coordinate from the previous sample and the
  other from the next.
\<close>


definition corner :: "bool \<Rightarrow> QPointF \<Rightarrow> QPointF \<Rightarrow> QPointF" where
  "corner inverted p q = (if inverted then QPointF (xp p) (yp q) else QPointF (xp q) (yp p))"

fun staircase :: "bool \<Rightarrow> QPointF list \<Rightarrow> QPointF list" where
  "staircase inverted [] = []"
| "staircase inverted [p] = [p]"
| "staircase inverted (p # q # ps) = p # corner inverted p q # staircase inverted (q # ps)"


subsection \<open>Example objects\<close>

text \<open>
  Modelled from the spec: the polygon clipper is not among the sources; the spec says it
  removes or truncates geometry outside a rectangle.  \<open>removeOutside\<close> is the clipper
  that removes the vertices outside the rectangle; it only serves concrete examples.
\<close>


definition removeOutside :: "QRect \<Rightarrow> QPointF list \<Rightarrow> QPointF list" where
  "removeOutside w ps =
     filter (\<lambda>p. real_of_int (rx1 w) \<le> xp p \<and> xp p \<le> real_of_int (rx2 w) \<and>
                  real_of_int (ry1 w) \<le> yp p \<and> yp p \<le> real_of_int (ry2 w)) ps"

definition identityMap :: QwtScaleMap where
  "identityMap = \<lparr> transform = (\<lambda>v. v) \<rparr>"

definition exampleSymbol :: "SymbolStyle \<Rightarrow> QSizeF \<Rightarrow> QwtSymbol" where
  "exampleSymbol st sz =
     \<lparr> sym_style = st, sym_size = sz,
       sym_brush = \<lparr> brush_style = NoBrush, brush_color = InvalidColor \<rparr>,
       sym_pen = QPen_of_style SolidLine \<rparr>"

definition exampleCurve :: "CurveStyle \<Rightarrow> int \<Rightarrow> int \<Rightarrow> QPointF list \<Rightarrow> QwtPlotCurve" where
  "exampleCurve st attrs pattrs series =
     \<lparr> style = st, reference = 0,
       symbol = exampleSymbol NoSymbol \<lparr> wd = 0, ht = 0 \<rparr>,
       curveFitter = None,
       pen = QPen_of_style SolidLine,
       brush = \<lparr> brush_style = NoBrush, brush_color = InvalidColor \<rparr>,
       attributes = attrs, paintAttributes = pattrs, legendAttributes = 0,
       d_series = series, orientation = Vertical,
       plot = Some \<lparr> canvasMap = (\<lambda>axis. identityMap) \<rparr>,
       xAxis = 0, yAxis = 0 \<rparr>"

definition examplePainter :: QPainter where
  "examplePainter = \<lparr> window = \<lparr> rx1 = 10, ry1 = 10, rx2 = 20, ry2 = 20 \<rparr> \<rparr>"

text \<open>
  Example objects of the column symbol renderer.  \<open>keepOuter\<close> stands in for the
  framework's polygon subtraction in concrete examples that never reach it.
\<close>


definition keepOuter :: "QPointF list \<Rightarrow> QPointF list \<Rightarrow> QPointF list" where
  "keepOuter outer inner = outer"

definition examplePalette :: QPalette where
  "examplePalette =
     \<lparr> pal_light = QBrush_of_color (Color 1), pal_dark = QBrush_of_color (Color 2),
       pal_window = QBrush_of_color (Color 3) \<rparr>"

definition exampleColumnSymbol :: "FrameStyle \<Rightarrow> int \<Rightarrow> QwtColumnSymbol" where
  "exampleColumnSymbol fs lw =
     \<lparr> col_style = Box, frameStyle = fs, palette = examplePalette,
       label = QwtText ''a'', lineWidth = lw \<rparr>"

definition exampleColumnRect :: "real \<Rightarrow> real \<Rightarrow> int \<Rightarrow> real \<Rightarrow> real \<Rightarrow> int \<Rightarrow> QwtColumnRect" where
  "exampleColumnRect hmin hmax hflags vmin vmax vflags =
     \<lparr> hInterval = \<lparr> minValue = hmin, maxValue = hmax, borderFlags = hflags \<rparr>,
       vInterval = \<lparr> minValue = vmin, maxValue = vmax, borderFlags = vflags \<rparr> \<rparr>"


section \<open>Properties of the curve renderer\<close>

declare drawSteps_loop.simps [simp del]

lemma forSamples_in_range:
  "(\<forall>i\<in>set js. 0 \<le> i \<and> i < int (length s)) \<Longrightarrow>
   forSamples s xMap yMap f js = Some (map (\<lambda>i. f (transformed xMap yMap (s ! nat i))) js)"
  by (induction js) (auto simp: sample_def)

lemma drawSteps_loop_total:
  "(\<forall>k. i \<le> k \<and> k \<le> to \<longrightarrow> 0 \<le> k \<and> k < int (length s)) \<Longrightarrow>
   \<exists>P. drawSteps_loop s xMap yMap inverted to i ip points = Some P"
proof (induction s xMap yMap inverted to i ip points rule: drawSteps_loop.induct)
  case (1 s xMap yMap inverted to i ip points)
  show ?case
  proof (cases "i \<le> to")
    case False
    then show ?thesis by (subst drawSteps_loop.simps) simp
  next
    case True
    with "1.prems" have r: "0 \<le> i \<and> i < int (length s)" by auto
    then have smp: "sample s i = Some (s ! nat i)" by (simp add: sample_def)
    from "1.prems" have nxt: "\<forall>k. i + 1 \<le> k \<and> k \<le> to \<longrightarrow> 0 \<le> k \<and> k < int (length s)" by auto
    show ?thesis
      apply (subst drawSteps_loop.simps)
      using True smp "1.IH"[OF True smp refl refl refl refl nxt]
      apply (simp add: Let_def)
      done
  qed
qed

lemma in_range_upto:
  "0 \<le> lo \<Longrightarrow> hi < int (length s) \<Longrightarrow> \<forall>i\<in>set [lo..hi]. 0 \<le> i \<and> i < int (length s)"
  by auto

lemma drawLines_total:
  assumes "0 \<le> lo" "hi < int (length (d_series c))"
  shows "\<exists>cs. drawLines clip c p xMap yMap lo hi = Some cs"
  using forSamples_in_range[OF in_range_upto[OF assms], of xMap yMap "\<lambda>p. p"]
  by (simp add: drawLines_def Let_def)

lemma drawSticks_total:
  assumes "0 \<le> lo" "hi < int (length (d_series c))"
  shows "\<exists>cs. drawSticks c p xMap yMap lo hi = Some cs"
  by (simp add: drawSticks_def Let_def forSamples_in_range[OF in_range_upto[OF assms]])

lemma drawDots_total:
  assumes "0 \<le> lo" "hi < int (length (d_series c))"
  shows "\<exists>cs. drawDots clip c p xMap yMap lo hi = Some cs"
  using forSamples_in_range[OF in_range_upto[OF assms], of xMap yMap "\<lambda>p. p"]
  by (simp add: drawDots_def Let_def)

lemma drawSymbols_total:
  assumes "0 \<le> lo" "hi < int (length (d_series c))"
  shows "\<exists>cs. drawSymbols c smb xMap yMap lo hi = Some cs"
  by (simp add: drawSymbols_def Let_def forSamples_in_range[OF in_range_upto[OF assms]])

lemma drawSteps_total:
  assumes "0 \<le> lo" "lo \<le> hi" "hi < int (length (d_series c))"
  shows "\<exists>cs. drawSteps clip c p xMap yMap lo hi = Some cs"
proof -
  have "\<forall>k. lo \<le> k \<and> k \<le> hi \<longrightarrow> 0 \<le> k \<and> k < int (length (d_series c))"
    using assms by auto
  from drawSteps_loop_total[OF this]
  obtain P where "drawSteps_loop (d_series c) xMap yMap
      (if attributes c AND Inverted \<noteq> 0 then \<not> (orientation c = Vertical) else orientation c = Vertical)
      hi lo 0 (replicate (nat (2 * (hi - lo) + 1)) (QPointF 0 0)) = Some P"
    by blast
  then show ?thesis using assms by (simp add: drawSteps_def Let_def)
qed

lemma drawCurve_total:
  assumes "0 \<le> lo" "lo \<le> hi" "hi < int (length (d_series c))"
  shows "\<exists>cs. drawCurve clip c p st xMap yMap lo hi = Some cs"
proof (cases st)
  case Lines
  have "\<exists>cs. drawLines clip c p xMap yMap 0 (dataSize c - 1) = Some cs"
    by (rule drawLines_total) (simp_all add: dataSize_def)
  then show ?thesis using Lines drawLines_total[OF assms(1,3)]
    by (simp add: drawCurve_def)
next
  case Sticks
  then show ?thesis using drawSticks_total[OF assms(1,3)] by (simp add: drawCurve_def)
next
  case Steps
  then show ?thesis using drawSteps_total[OF assms] by (simp add: drawCurve_def)
next
  case Dots
  then show ?thesis using drawDots_total[OF assms(1,3)] by (simp add: drawCurve_def)
qed (simp_all add: drawCurve_def)

lemma drawRange_total:
  assumes "0 \<le> lo" "lo \<le> hi" "hi < int (length (d_series c))"
  shows "\<exists>cs. drawRange clip c p xMap yMap lo hi = Some cs"
proof -
  obtain cs where cs: "drawCurve clip c p (style c) xMap yMap lo hi = Some cs"
    using drawCurve_total[OF assms] by blast
  obtain ss where ss: "drawSymbols c (symbol c) xMap yMap lo hi = Some ss"
    using drawSymbols_total[OF assms(1,3)] by blast
  show ?thesis by (simp add: drawRange_def cs ss)
qed

lemma resolvedRange_bounds:
  assumes "0 < s" "resolvedRange s from to = (lo, hi)"
  shows "0 \<le> lo \<and> lo \<le> hi \<and> hi \<le> s - 1"
  using assms by (auto simp: resolvedRange_def Let_def split: if_splits)

lemma verifyRange_resolved:
  assumes "0 < s"
  shows "verifyRange s from (if to < 0 then s - 1 else to) =
           (snd (resolvedRange s from to) - fst (resolvedRange s from to) + 1,
            fst (resolvedRange s from to), snd (resolvedRange s from to))"
  using assms by (auto simp: verifyRange_def resolvedRange_def qwtLim_def Let_def)

text \<open>
  Claim C1.  \<open>drawSeries\<close> issues no command when the painter is null or the series is
  empty.  Otherwise a negative \<open>to\<close> stands for the last index, \<open>from\<close> and \<open>to\<close> are
  clamped into \<open>[0, s - 1]\<close> and swapped when inverted, nothing is drawn when the count
  \<open>to - from + 1\<close> is not positive, and the curve and its symbols are drawn on the
  resolved range.  The call always returns, and the resolved range lies inside the series.
\<close>

theorem drawSeries_resolves_range:
  "drawSeries clip c painter xMap yMap from to =
     (if painter = None \<or> dataSize c = 0 then Some []
      else case resolvedRange (dataSize c) from to of
             (lo, hi) \<Rightarrow>
               if hi - lo + 1 \<le> 0 then Some []
               else drawRange clip c (the painter) xMap yMap lo hi)
   \<and> (\<exists>cmds. drawSeries clip c painter xMap yMap from to = Some cmds)
   \<and> (case resolvedRange (dataSize c) from to of
         (lo, hi) \<Rightarrow> dataSize c = 0 \<or> (0 \<le> lo \<and> lo \<le> hi \<and> hi \<le> dataSize c - 1))"
proof (cases "painter = None \<or> dataSize c = 0")
  case True
  then show ?thesis
    by (auto simp: drawSeries_def dataSize_def resolvedRange_def Let_def split: option.splits)
next
  case False
  then obtain p where p: "painter = Some p" by auto
  from False have pos: "0 < dataSize c" by (simp add: dataSize_def)
  obtain lo hi where r: "resolvedRange (dataSize c) from to = (lo, hi)" by force
  note b = resolvedRange_bounds[OF pos r]
  have tot: "\<exists>cmds. drawRange clip c p xMap yMap lo hi = Some cmds"
    using b by (intro drawRange_total) (simp_all add: dataSize_def)
  have eq: "drawSeries clip c painter xMap yMap from to = drawRange clip c p xMap yMap lo hi"
    using pos b by (simp add: drawSeries_def p verifyRange_resolved[OF pos] r Let_def)
  show ?thesis unfolding eq using False tot b by (simp add: r p)
qed

lemma staircase_snoc:
  "staircase iv (xs @ [a, b]) = staircase iv (xs @ [a]) @ [corner iv a b, b]"
  by (induction iv xs rule: staircase.induct) auto

lemma staircase_last: "staircase iv (xs @ [a]) ! (2 * length xs) = a"
  by (induction iv xs rule: staircase.induct) auto

lemma staircase_length: "xs \<noteq> [] \<Longrightarrow> length (staircase iv xs) = 2 * length xs - 1"
  by (induction iv xs rule: staircase.induct) auto

lemma take_update2:
  "Suc n < length xs \<Longrightarrow> take (Suc (Suc n)) (xs[n := a, Suc n := b]) = take n xs @ [a, b]"
  by (rule nth_equalityI) (auto simp: nth_append nth_list_update less_Suc_eq)

lemma take_update1:
  "0 < length xs \<Longrightarrow> take (Suc 0) (xs[0 := b]) = [b]"
  by (cases xs) auto

lemma xp_QPointF [simp]: "xp (QPointF a b) = a" and yp_QPointF [simp]: "yp (QPointF a b) = b"
  by (simp_all add: QPointF_def)




lemma upto_snoc: "lo \<le> (i::int) \<Longrightarrow> [lo..i] = [lo..i - 1] @ [i]"
  by (rule upto_rec2)

lemma drawSteps_loop_staircase:
  assumes "lo \<le> i" "i \<le> to + 1"
    and "\<forall>k. lo \<le> k \<and> k \<le> to \<longrightarrow> 0 \<le> k \<and> k < int (length s)"
    and "ip = 2 * nat (i - lo)"
    and "length points = nat (2 * (to - lo) + 1)"
    and "lo < i \<longrightarrow> take (ip - 1) points =
           staircase iv (map (\<lambda>k. transformed xMap yMap (s ! nat k)) [lo..i - 1])"
  shows "drawSteps_loop s xMap yMap iv to i ip points =
           Some (if lo \<le> to then staircase iv (map (\<lambda>k. transformed xMap yMap (s ! nat k)) [lo..to])
                 else points)"
  using assms
proof (induction s xMap yMap iv to i ip points rule: drawSteps_loop.induct)
  case (1 s xMap yMap iv to i ip points)
  let ?T = "\<lambda>k. transformed xMap yMap (s ! nat k)"
  show ?case
  proof (cases "i \<le> to")
    case False
    with "1.prems" have i: "i = to + 1" by simp
    show ?thesis
    proof (cases "lo \<le> to")
      case True
      then have "lo < i" using i by simp
      with "1.prems"(6) have tk: "take (ip - 1) points = staircase iv (map ?T [lo..i - 1])" by simp
      have "ip - 1 = length points" using "1.prems"(4,5) i True
        by (simp add: nat_mult_distrib nat_add_distrib)
      with tk have "points = staircase iv (map ?T [lo..to])" using i by simp
      then show ?thesis using False True by (subst drawSteps_loop.simps) simp
    next
      case F: False
      then show ?thesis using False by (subst drawSteps_loop.simps) simp
    qed
  next
    case True
    with "1.prems" have r: "0 \<le> i \<and> i < int (length s)" by auto
    then have smp: "sample s i = Some (s ! nat i)" by (simp add: sample_def)
    have lt: "lo \<le> to" using True "1.prems"(1) by simp
    have ipl: "ip < length points" using "1.prems"(1,4,5) True by (simp add: nat_mult_distrib nat_add_distrib) 
    let ?xi = "transform xMap (xp (s ! nat i))"
    let ?yi = "transform yMap (yp (s ! nat i))"
    have Ti: "?T i = QPointF ?xi ?yi" by (simp add: transformed_def)
    define points1 where "points1 =
       (if ip > 0 then
          (let p0 = points ! (ip - 2) in
           if iv then points[ip - 1 := QPointF (xp p0) ?yi]
           else points[ip - 1 := QPointF ?xi (yp p0)])
        else points)"
    define points2 where "points2 = points1[ip := QPointF ?xi ?yi]"
    have len2: "length points2 = nat (2 * (to - lo) + 1)"
      using "1.prems"(5) by (simp add: points2_def points1_def Let_def)
    have ip2: "ip + 2 = 2 * nat (i + 1 - lo)" using "1.prems"(1,4) by (simp add: nat_add_distrib)
    have tk2: "take (ip + 2 - 1) points2 = staircase iv (map ?T [lo..i + 1 - 1])"
    proof (cases "lo < i")
      case False
      then have il: "i = lo" using "1.prems"(1) by simp
      then have ip0: "ip = 0" using "1.prems"(4) by simp
      have "points2 = points[0 := ?T lo]" by (simp add: points2_def points1_def ip0 il transformed_def)
      then show ?thesis using ipl ip0 il by (simp add: take_update1)
    next
      case True
      then have ippos: "ip \<ge> 2" using "1.prems"(4) by (simp add: nat_mult_distrib) 
      from True "1.prems"(6) have tk: "take (ip - 1) points = staircase iv (map ?T [lo..i - 1])" by simp
      have up1: "[lo..i - 1] = [lo..i - 2] @ [i - 1]" using True upto_snoc[of lo "i - 1"] by simp
      have len1: "length [lo..i - 2] = nat (i - 1 - lo)" by simp
      have ipm: "ip - 2 = 2 * length [lo..i - 2]" using "1.prems"(4) True by (simp add: nat_mult_distrib nat_diff_distrib)
      have "points ! (ip - 2) = take (ip - 1) points ! (ip - 2)" using ippos by simp
      also have "\<dots> = staircase iv (map ?T [lo..i - 2] @ [?T (i - 1)]) ! (2 * length (map ?T [lo..i - 2]))"
        using tk up1 ipm by simp
      also have "\<dots> = ?T (i - 1)" by (rule staircase_last)
      finally have p0: "points ! (ip - 2) = ?T (i - 1)" .
      have p1: "points1 = points[ip - 1 := corner iv (?T (i - 1)) (?T i)]"
        using ippos by (simp add: points1_def Let_def p0 corner_def Ti)
      obtain n where n: "ip = Suc (Suc n)" using ippos by (metis add_2_eq_Suc le_Suc_ex)
      have "take (ip + 2 - 1) points2 = take (Suc (Suc (Suc n))) (points[Suc n := corner iv (?T (i - 1)) (?T i), Suc (Suc n) := ?T i])"
        by (simp add: points2_def p1 n Ti)
      also have "\<dots> = take (Suc n) points @ [corner iv (?T (i - 1)) (?T i), ?T i]"
        using ipl n by (intro take_update2) simp
      also have "take (Suc n) points = staircase iv (map ?T [lo..i - 2] @ [?T (i - 1)])"
        using tk up1 n by simp
      also have "\<dots> @ [corner iv (?T (i - 1)) (?T i), ?T i] = staircase iv (map ?T [lo..i - 2] @ [?T (i - 1), ?T i])"
        by (simp add: staircase_snoc)
      also have "map ?T [lo..i - 2] @ [?T (i - 1), ?T i] = map ?T [lo..i]"
        using up1 upto_snoc[of lo i] "1.prems"(1) by simp
      finally show ?thesis by simp
    qed
    have nxt: "drawSteps_loop s xMap yMap iv to (i + 1) (ip + 2) points2 =
       Some (if lo \<le> to then staircase iv (map ?T [lo..to]) else points2)"
      apply (rule "1.IH"[OF True smp refl refl])
      using "1.prems"(1,3) True len2 ip2 tk2
      by (auto simp: points1_def points2_def Let_def)
    show ?thesis
      apply (subst drawSteps_loop.simps)
      using True smp nxt lt
      by (simp add: Let_def points1_def points2_def)
  qed
qed

lemma staircase_nth_even: "k < length xs \<Longrightarrow> staircase iv xs ! (2 * k) = xs ! k"
proof (induction iv xs arbitrary: k rule: staircase.induct)
  case (3 iv p q ps)
  then show ?case by (cases k) auto
qed auto

lemma staircase_nth_odd:
  "Suc k < length xs \<Longrightarrow> staircase iv xs ! (2 * k + 1) = corner iv (xs ! k) (xs ! Suc k)"
proof (induction iv xs arbitrary: k rule: staircase.induct)
  case (3 iv p q ps)
  then show ?case by (cases k) auto
qed auto

lemma drawSteps_loop_from_start:
  assumes "0 \<le> lo" "lo \<le> hi" "hi < int (length s)"
  shows "drawSteps_loop s xMap yMap iv hi lo 0 (replicate (nat (2 * (hi - lo) + 1)) (QPointF 0 0)) =
           Some (staircase iv (map (\<lambda>k. transformed xMap yMap (s ! nat k)) [lo..hi]))"
  using drawSteps_loop_staircase[of lo lo hi s 0 "replicate (nat (2 * (hi - lo) + 1)) (QPointF 0 0)" iv xMap yMap]
    assms by simp

text \<open>
  Claim C2 (amended).  On a range \<open>0 \<le> from \<le> to < size\<close> the Steps style builds a
  staircase polygon of exactly \<open>2 * (to - from) + 1\<close> vertices: the even positions hold
  the transformed samples, and each odd position holds a corner with the x of the previous
  and the y of the next sample when orientation-is-vertical XOR Inverted holds, and the x
  of the next and the y of the previous sample otherwise.  This polygon is handed to the
  painter unchanged when ClipPolygons is not set; when ClipPolygons is set, what is drawn
  is the clipper's result for this polygon.
\<close>

theorem drawSteps_staircase:
  assumes "0 \<le> from" "from \<le> to" "to < dataSize c"
  shows "let inverted = ((orientation c = Vertical) \<noteq> (attributes c AND Inverted \<noteq> 0));
             ts = map (\<lambda>i. transformed xMap yMap (d_series c ! nat i)) [from..to];
             polygon = staircase inverted ts;
             drawn = (if paintAttributes c AND ClipPolygons \<noteq> 0
                      then clip (window p) polygon else polygon)
         in length polygon = nat (2 * (to - from) + 1)
            \<and> (\<forall>k < length ts. polygon ! (2 * k) = ts ! k)
            \<and> (\<forall>k. Suc k < length ts \<longrightarrow>
                   polygon ! (2 * k + 1) =
                     (if inverted then QPointF (xp (ts ! k)) (yp (ts ! Suc k))
                      else QPointF (xp (ts ! Suc k)) (yp (ts ! k))))
            \<and> drawSteps clip c p xMap yMap from to =
                Some (DrawPolyline drawn #
                      (if brush_style (brush c) \<noteq> NoBrush
                       then fillCurve c xMap yMap drawn else []))"
proof -
  define inverted where "inverted = ((orientation c = Vertical) \<noteq> (attributes c AND Inverted \<noteq> 0))"
  define ts where "ts = map (\<lambda>i. transformed xMap yMap (d_series c ! nat i)) [from..to]"
  have inv_eq: "(if attributes c AND Inverted \<noteq> 0 then \<not> (orientation c = Vertical)
                 else orientation c = Vertical) = inverted"
    by (auto simp: inverted_def)
  have ne: "ts \<noteq> []" using assms(2) by (simp add: ts_def)
  have lts: "length ts = nat (to - from + 1)" by (simp add: ts_def)
  have len: "length (staircase inverted ts) = nat (2 * (to - from) + 1)"
    using staircase_length[OF ne, of inverted] lts assms(2)
    by (simp add: nat_mult_distrib nat_add_distrib nat_diff_distrib)
  have loop: "drawSteps_loop (d_series c) xMap yMap inverted to from 0
                (replicate (nat (2 * (to - from) + 1)) (QPointF 0 0)) = Some (staircase inverted ts)"
    unfolding ts_def using assms by (intro drawSteps_loop_from_start) (simp_all add: dataSize_def)
  have run: "drawSteps clip c p xMap yMap from to =
       Some (DrawPolyline (if paintAttributes c AND ClipPolygons \<noteq> 0
                      then clip (window p) (staircase inverted ts) else staircase inverted ts) #
             (if brush_style (brush c) \<noteq> NoBrush
              then fillCurve c xMap yMap (if paintAttributes c AND ClipPolygons \<noteq> 0
                      then clip (window p) (staircase inverted ts) else staircase inverted ts) else []))"
    unfolding drawSteps_def Let_def inv_eq loop using assms(2) by simp
  have odd: "\<forall>k. Suc k < length ts \<longrightarrow>
                   staircase inverted ts ! (2 * k + 1) =
                     (if inverted then QPointF (xp (ts ! k)) (yp (ts ! Suc k))
                      else QPointF (xp (ts ! Suc k)) (yp (ts ! k)))"
    using staircase_nth_odd[of _ ts inverted] by (simp add: corner_def)
  have even: "\<forall>k < length ts. staircase inverted ts ! (2 * k) = ts ! k"
    by (simp add: staircase_nth_even)
  show ?thesis
    unfolding Let_def inverted_def[symmetric] ts_def[symmetric]
    using len even odd run by blast
qed



lemmas example_defs = exampleCurve_def exampleSymbol_def examplePainter_def identityMap_def
  removeOutside_def QPointF_def transformed_def dataSize_def
  Inverted_def Fitted_def ClipPolygons_def

theorem drawSteps_staircase_witness:
  "drawSteps removeOutside (exampleCurve Steps Inverted 0 [QPointF 0 0, QPointF 1 2])
     examplePainter identityMap identityMap 0 1 =
     Some [DrawPolyline [QPointF 0 0, QPointF 1 0, QPointF 1 2]]"
  using drawSteps_staircase[of 0 1 "exampleCurve Steps Inverted 0 [QPointF 0 0, QPointF 1 2]"
      identityMap identityMap removeOutside examplePainter]
  by (simp add: example_defs Let_def upto.simps)

theorem drawSteps_clipped_counterexample:
  "drawSteps removeOutside (exampleCurve Steps 0 ClipPolygons [QPointF 0 0, QPointF 1 2])
     examplePainter identityMap identityMap 0 1 = Some [DrawPolyline []]
   \<and> length ([] :: QPointF list) \<noteq> nat (2 * (1 - 0) + 1)"
  by (simp add: drawSteps_def drawSteps_loop.simps sample_def example_defs Let_def numeral_3_eq_3)

lemma upto_nth_map: "map (\<lambda>i. f (s ! nat i)) [0..int (length s) - 1] = map f s"
proof (induction s rule: rev_induct)
  case Nil
  then show ?case by simp
next
  case (snoc x xs)
  have up: "[0..int (length xs)] = [0..int (length xs) - 1] @ [int (length xs)]"
    using upto_rec2[of 0 "int (length xs)"] by simp
  have "map (\<lambda>i. f ((xs @ [x]) ! nat i)) [0..int (length xs) - 1] =
        map (\<lambda>i. f (xs ! nat i)) [0..int (length xs) - 1]"
    by (rule map_cong) (auto simp: nth_append)
  then show ?case using snoc by (simp add: up)
qed

lemma forSamples_whole:
  "forSamples s xMap yMap f [0..int (length s) - 1] = Some (map (\<lambda>p. f (transformed xMap yMap p)) s)"
proof -
  have "\<forall>i\<in>set [0..int (length s) - 1]. 0 \<le> i \<and> i < int (length s)" by auto
  from forSamples_in_range[OF this, of xMap yMap f]
  show ?thesis using upto_nth_map[of "\<lambda>p. f (transformed xMap yMap p)" s] by simp
qed

text \<open>
  Claim C3.  Under vertical orientation \<open>closePolyline\<close> turns a polygon of exactly two
  points into four vertices: the two appended vertices have the y-coordinate
  \<open>yMap.transform(reference)\<close> and the x-coordinates of the last and of the first input
  point.  A polygon of fewer than two points is returned unchanged, and \<open>fillCurve\<close>
  fills nothing when the closed polygon has two or fewer vertices.
\<close>

theorem closePolyline_to_baseline:
  "(orientation c = Vertical \<longrightarrow>
      closePolyline c xMap yMap [p, q] =
        [p, q, QPointF (xp q) (transform yMap (reference c)),
               QPointF (xp p) (transform yMap (reference c))])
   \<and> (length polygon < 2 \<longrightarrow> closePolyline c xMap yMap polygon = polygon)
   \<and> (length (closePolyline c xMap yMap polygon) \<le> 2 \<longrightarrow> fillCurve c xMap yMap polygon = [])"
  by (simp add: closePolyline_def fillCurve_def Let_def)

theorem closePolyline_to_baseline_witness:
  "closePolyline (exampleCurve Lines 0 0 []) identityMap identityMap [QPointF 1 2, QPointF 3 4] =
     [QPointF 1 2, QPointF 3 4, QPointF 3 0, QPointF 1 0]
   \<and> closePolyline (exampleCurve Lines 0 0 []) identityMap identityMap [QPointF 1 2] = [QPointF 1 2]
   \<and> fillCurve ((exampleCurve Lines 0 0 []) \<lparr> brush := QBrush_of_color (Color 1) \<rparr>)
        identityMap identityMap [QPointF 1 2] = []"
  using closePolyline_to_baseline[of "exampleCurve Lines 0 0 []" identityMap identityMap
          "QPointF 1 2" "QPointF 3 4" "[QPointF 1 2]"]
        closePolyline_to_baseline[of "(exampleCurve Lines 0 0 []) \<lparr> brush := QBrush_of_color (Color 1) \<rparr>"
          identityMap identityMap "QPointF 1 2" "QPointF 3 4" "[QPointF 1 2]"]
  by (simp add: example_defs closePolyline_def)

text \<open>
  Claim C4 (amended).  When the Fitted attribute is set and the style passed to
  \<open>drawCurve\<close> is Lines, the curve is computed from the entire series (indices \<open>0\<close>
  through \<open>size - 1\<close>), whatever range was requested: the whole transformed series goes
  through the fitter (when there is one) and the clipper (when ClipPolygons is set).
\<close>

theorem drawCurve_fitted_lines:
  assumes "testCurveAttribute c Fitted"
  shows "drawCurve clip c p Lines xMap yMap from to =
           drawLines clip c p xMap yMap 0 (dataSize c - 1)
         \<and> drawCurve clip c p Lines xMap yMap from to =
           (if d_series c = [] then Some []
            else let polyline = map (transformed xMap yMap) (d_series c);
                     fitted = (case curveFitter c of
                                 Some fitCurve \<Rightarrow> fitCurve polyline
                               | None \<Rightarrow> polyline);
                     drawn = (if paintAttributes c AND ClipPolygons \<noteq> 0
                              then clip (window p) fitted else fitted)
                 in Some (DrawPolyline drawn #
                          (if brush_style (brush c) \<noteq> NoBrush
                           then fillCurve c xMap yMap drawn else [])))"
proof -
  have a: "attributes c AND Fitted \<noteq> 0" using assms by (simp add: testCurveAttribute_def)
  have 1: "drawCurve clip c p Lines xMap yMap from to = drawLines clip c p xMap yMap 0 (dataSize c - 1)"
    using assms by (simp add: drawCurve_def)
  have 2: "forSamples (d_series c) xMap yMap (\<lambda>p. p) [0..dataSize c - 1] =
             Some (map (transformed xMap yMap) (d_series c))"
    using forSamples_whole[of "d_series c" xMap yMap "\<lambda>p. p"] by (simp add: dataSize_def)
  have 3: "dataSize c - 1 - 0 + 1 \<le> 0 \<longleftrightarrow> d_series c = []" by (simp add: dataSize_def)
  show ?thesis unfolding 1 drawLines_def Let_def 2 3 using a by simp
qed

theorem drawCurve_fitted_lines_witness:
  "drawCurve removeOutside (exampleCurve Lines Fitted 0 [QPointF 1 1, QPointF 2 3])
     examplePainter Lines identityMap identityMap 0 0 =
   Some [DrawPolyline [QPointF 1 1, QPointF 2 3]]"
  using drawCurve_fitted_lines[of "exampleCurve Lines Fitted 0 [QPointF 1 1, QPointF 2 3]"
          removeOutside examplePainter identityMap identityMap 0 0, THEN conjunct2]
  by (simp add: example_defs testCurveAttribute_def Let_def)

theorem drawCurve_fitted_sticks_counterexample:
  "testCurveAttribute (exampleCurve Sticks Fitted 0 [QPointF 1 1, QPointF 2 3]) Fitted
   \<and> drawCurve removeOutside (exampleCurve Sticks Fitted 0 [QPointF 1 1, QPointF 2 3])
        examplePainter Sticks identityMap identityMap 0 0 =
      Some [DrawLine (QPointF 1 0) (QPointF 1 1)]
   \<and> drawCurve removeOutside (exampleCurve Sticks Fitted 0 [QPointF 1 1, QPointF 2 3])
        examplePainter Sticks identityMap identityMap 0 1 =
      Some [DrawLine (QPointF 1 0) (QPointF 1 1), DrawLine (QPointF 2 0) (QPointF 2 3)]"
  by (simp add: drawCurve_def drawSticks_def sample_def testCurveAttribute_def example_defs
        Let_def upto.simps)

lemma fillCurve_setCurveFitter: "fillCurve (setCurveFitter f c) = fillCurve c"
  by (rule ext)+ (simp add: fillCurve_def closePolyline_def setCurveFitter_def Let_def)

text \<open>
  Claim C10.  After \<open>setCurveFitter(NULL)\<close> the fitter pointer is null, and
  \<open>drawLines\<close> on a range inside the series returns and draws the transformed samples of
  the range without any fitting step (clipped when ClipPolygons is set), whether or not
  the Fitted attribute is set.
\<close>

theorem drawLines_null_fitter:
  assumes "0 \<le> from" "from \<le> to" "to < dataSize c"
  shows "curveFitter (setCurveFitter None c) = None
         \<and> drawLines clip (setCurveFitter None c) p xMap yMap from to =
           (let polyline = map (\<lambda>i. transformed xMap yMap (d_series c ! nat i)) [from..to];
                drawn = (if paintAttributes c AND ClipPolygons \<noteq> 0
                         then clip (window p) polyline else polyline)
            in Some (DrawPolyline drawn #
                     (if brush_style (brush c) \<noteq> NoBrush
                      then fillCurve c xMap yMap drawn else [])))"
proof -
  have r: "\<forall>i\<in>set [from..to]. 0 \<le> i \<and> i < int (length (d_series (setCurveFitter None c)))"
    using assms by (auto simp: setCurveFitter_def dataSize_def)
  have 2: "forSamples (d_series (setCurveFitter None c)) xMap yMap (\<lambda>p. p) [from..to] =
        Some (map (\<lambda>i. transformed xMap yMap (d_series c ! nat i)) [from..to])"
    using forSamples_in_range[OF r, of xMap yMap "\<lambda>p. p"] by (simp add: setCurveFitter_def)
  have 3: "\<not> to - from + 1 \<le> 0" using assms by simp
  show ?thesis unfolding drawLines_def Let_def 2 fillCurve_setCurveFitter
    using 3 by (simp add: setCurveFitter_def)
qed

theorem drawLines_null_fitter_witness:
  "drawLines removeOutside
     (setCurveFitter None ((exampleCurve Lines Fitted 0 [QPointF 1 1, QPointF 2 3])
        \<lparr> curveFitter := Some rev \<rparr>))
     examplePainter identityMap identityMap 0 1 =
   Some [DrawPolyline [QPointF 1 1, QPointF 2 3]]"
  using drawLines_null_fitter[of 0 1 "(exampleCurve Lines Fitted 0 [QPointF 1 1, QPointF 2 3])
        \<lparr> curveFitter := Some rev \<rparr>" removeOutside examplePainter identityMap identityMap]
  by (simp add: example_defs Let_def upto.simps)

section \<open>Properties of the column symbol renderer\<close>

lemmas column_example_defs = keepOuter_def examplePalette_def exampleColumnSymbol_def
  exampleColumnRect_def QBrush_of_color_def QPen_of_color_def ExcludeMinimum_def ExcludeMaximum_def

text \<open>
  Claim C7.  \<open>operator==\<close> holds exactly when style, frame style, palette, line width
  and label are equal; starting from two equal symbols, changing any single one of the
  five fields of one of them makes them unequal; \<open>operator!=\<close> is the negation of
  \<open>operator==\<close>.
\<close>

theorem operator_eq_fields:
  "operator_eq a b =
     (col_style a = col_style b \<and> frameStyle a = frameStyle b \<and> palette a = palette b \<and>
      lineWidth a = lineWidth b \<and> label a = label b)
   \<and> (operator_eq a b \<and> st \<noteq> col_style a \<longrightarrow> \<not> operator_eq (a \<lparr> col_style := st \<rparr>) b)
   \<and> (operator_eq a b \<and> fs \<noteq> frameStyle a \<longrightarrow> \<not> operator_eq (a \<lparr> frameStyle := fs \<rparr>) b)
   \<and> (operator_eq a b \<and> pal \<noteq> palette a \<longrightarrow> \<not> operator_eq (a \<lparr> palette := pal \<rparr>) b)
   \<and> (operator_eq a b \<and> lw \<noteq> lineWidth a \<longrightarrow> \<not> operator_eq (a \<lparr> lineWidth := lw \<rparr>) b)
   \<and> (operator_eq a b \<and> lbl \<noteq> label a \<longrightarrow> \<not> operator_eq (a \<lparr> label := lbl \<rparr>) b)
   \<and> operator_ne a b = (\<not> operator_eq a b)"
  by (auto simp: operator_eq_def operator_ne_def)

theorem operator_eq_fields_witness:
  "operator_eq (exampleColumnSymbol Plain 2) (exampleColumnSymbol Plain 2)
   \<and> \<not> operator_eq ((exampleColumnSymbol Plain 2) \<lparr> col_style := NoStyle \<rparr>) (exampleColumnSymbol Plain 2)
   \<and> \<not> operator_eq ((exampleColumnSymbol Plain 2) \<lparr> frameStyle := Raised \<rparr>) (exampleColumnSymbol Plain 2)
   \<and> \<not> operator_eq ((exampleColumnSymbol Plain 2) \<lparr> palette := examplePalette \<lparr> pal_dark := QBrush_of_color (Color 7) \<rparr> \<rparr>)
          (exampleColumnSymbol Plain 2)
   \<and> \<not> operator_eq ((exampleColumnSymbol Plain 2) \<lparr> lineWidth := 3 \<rparr>) (exampleColumnSymbol Plain 2)
   \<and> \<not> operator_eq ((exampleColumnSymbol Plain 2) \<lparr> label := QwtText ''b'' \<rparr>) (exampleColumnSymbol Plain 2)
   \<and> \<not> operator_ne (exampleColumnSymbol Plain 2) (exampleColumnSymbol Plain 2)"
  using operator_eq_fields[of "exampleColumnSymbol Plain 2" "exampleColumnSymbol Plain 2"
          NoStyle Raised "examplePalette \<lparr> pal_dark := QBrush_of_color (Color 7) \<rparr>" 3 "QwtText ''b''"]
  by (simp add: column_example_defs)

text \<open>
  Claim C8.  The member \<open>drawBox\<close> hands the frame drawing the rectangle
  \<open>borderAdjusted rect\<close>, in which each of the four border-exclusion flags moves exactly
  its own edge inwards by 1: horizontal exclude-minimum the left edge, horizontal
  exclude-maximum the right edge, vertical exclude-minimum the top edge, vertical
  exclude-maximum the bottom edge.  With exactly horizontal exclude-minimum and vertical
  exclude-maximum set, the left and the bottom edge are inset by 1 and the top and right
  edges are unchanged.
\<close>

theorem drawBox_border_adjustment:
  "left (borderAdjusted rect) =
     left (toRect rect) + (if borderFlags (hInterval rect) AND ExcludeMinimum \<noteq> 0 then 1 else 0)
   \<and> right (borderAdjusted rect) =
     right (toRect rect) - (if borderFlags (hInterval rect) AND ExcludeMaximum \<noteq> 0 then 1 else 0)
   \<and> top (borderAdjusted rect) =
     top (toRect rect) + (if borderFlags (vInterval rect) AND ExcludeMinimum \<noteq> 0 then 1 else 0)
   \<and> bottom (borderAdjusted rect) =
     bottom (toRect rect) - (if borderFlags (vInterval rect) AND ExcludeMaximum \<noteq> 0 then 1 else 0)
   \<and> (borderFlags (hInterval rect) = ExcludeMinimum \<and> borderFlags (vInterval rect) = ExcludeMaximum
        \<longrightarrow> left (borderAdjusted rect) = left (toRect rect) + 1
          \<and> bottom (borderAdjusted rect) = bottom (toRect rect) - 1
          \<and> top (borderAdjusted rect) = top (toRect rect)
          \<and> right (borderAdjusted rect) = right (toRect rect))
   \<and> drawBox subtracted this rect =
       (case frameStyle this of
          Raised \<Rightarrow> drawPanel (borderAdjusted rect) (palette this) (real_of_int (lineWidth this))
        | Plain \<Rightarrow> drawBox_static subtracted (borderAdjusted rect) (palette this)
                    (real_of_int (lineWidth this))
        | NoFrame \<Rightarrow> [FillRect (adjusted (borderAdjusted rect) 0 0 (- 1) (- 1))
                        (pal_window (palette this))])"
proof -
  have edges:
    "left (borderAdjusted rect) =
       left (toRect rect) + (if borderFlags (hInterval rect) AND ExcludeMinimum \<noteq> 0 then 1 else 0)"
    "right (borderAdjusted rect) =
       right (toRect rect) - (if borderFlags (hInterval rect) AND ExcludeMaximum \<noteq> 0 then 1 else 0)"
    "top (borderAdjusted rect) =
       top (toRect rect) + (if borderFlags (vInterval rect) AND ExcludeMinimum \<noteq> 0 then 1 else 0)"
    "bottom (borderAdjusted rect) =
       bottom (toRect rect) - (if borderFlags (vInterval rect) AND ExcludeMaximum \<noteq> 0 then 1 else 0)"
    by (simp_all add: borderAdjusted_def adjusted_def left_def right_def top_def bottom_def Let_def)
  have only: "borderFlags (hInterval rect) = ExcludeMinimum \<and> borderFlags (vInterval rect) = ExcludeMaximum
        \<longrightarrow> left (borderAdjusted rect) = left (toRect rect) + 1
          \<and> bottom (borderAdjusted rect) = bottom (toRect rect) - 1
          \<and> top (borderAdjusted rect) = top (toRect rect)
          \<and> right (borderAdjusted rect) = right (toRect rect)"
    by (simp add: edges) (simp add: ExcludeMinimum_def ExcludeMaximum_def)
  have call: "drawBox subtracted this rect =
       (case frameStyle this of
          Raised \<Rightarrow> drawPanel (borderAdjusted rect) (palette this) (real_of_int (lineWidth this))
        | Plain \<Rightarrow> drawBox_static subtracted (borderAdjusted rect) (palette this)
                    (real_of_int (lineWidth this))
        | NoFrame \<Rightarrow> [FillRect (adjusted (borderAdjusted rect) 0 0 (- 1) (- 1))
                        (pal_window (palette this))])"
    by (simp add: drawBox_def Let_def)
  show ?thesis using edges only call by blast
qed

theorem drawBox_border_adjustment_witness:
  "borderAdjusted (exampleColumnRect 2 6 ExcludeMinimum 1 4 ExcludeMaximum) =
     \<lparr> rect_x = 3, rect_y = 1, rect_w = 3, rect_h = 2 \<rparr>
   \<and> left (borderAdjusted (exampleColumnRect 2 6 ExcludeMinimum 1 4 ExcludeMaximum)) = 3
   \<and> bottom (borderAdjusted (exampleColumnRect 2 6 ExcludeMinimum 1 4 ExcludeMaximum)) = 3
   \<and> top (borderAdjusted (exampleColumnRect 2 6 ExcludeMinimum 1 4 ExcludeMaximum)) = 1
   \<and> right (borderAdjusted (exampleColumnRect 2 6 ExcludeMinimum 1 4 ExcludeMaximum)) = 6"
  using drawBox_border_adjustment[of "exampleColumnRect 2 6 ExcludeMinimum 1 4 ExcludeMaximum"]
  by (simp add: column_example_defs borderAdjusted_def toRect_def adjusted_def
        left_def right_def top_def bottom_def Let_def)

text \<open>
  Claim C9 (amended).  For a Plain frame with a line width greater than 0, a rectangle
  of width 0 is drawn as exactly one line in the palette's dark tone from its top-left to
  its bottom-left corner, and nothing else is emitted.
\<close>

theorem drawBox_zero_width_line:
  "(width rect = 0 \<and> lw > 0 \<longrightarrow>
      drawBox_static subtracted rect pal lw =
        [SetPen (QPen_of_color (brush_color (pal_dark pal))),
         DrawLine (topLeft rect) (bottomLeft rect)])
   \<and> (frameStyle this = Plain \<and> width (borderAdjusted crect) = 0 \<and> lineWidth this > 0 \<longrightarrow>
      drawBox subtracted this crect =
        [SetPen (QPen_of_color (brush_color (pal_dark (palette this)))),
         DrawLine (topLeft (borderAdjusted crect)) (bottomLeft (borderAdjusted crect))])"
  by (simp add: drawBox_static_def drawBox_def Let_def)

theorem drawBox_zero_width_line_witness:
  "drawBox keepOuter (exampleColumnSymbol Plain 2) (exampleColumnRect 3 3 0 0 5 0) =
     [SetPen (QPen_of_color (Color 2)), DrawLine (QPointF 3 0) (QPointF 3 5)]
   \<and> drawBox_static keepOuter \<lparr> rect_x = 3, rect_y = 0, rect_w = 0, rect_h = 5 \<rparr> examplePalette 2 =
     [SetPen (QPen_of_color (Color 2)), DrawLine (QPointF 3 0) (QPointF 3 5)]"
  using drawBox_zero_width_line[of "\<lparr> rect_x = 3, rect_y = 0, rect_w = 0, rect_h = 5 \<rparr>" 2
          keepOuter examplePalette "exampleColumnSymbol Plain 2" "exampleColumnRect 3 3 0 0 5 0"]
  by (simp add: column_example_defs borderAdjusted_def toRect_def width_def topLeft_def
        bottomLeft_def Let_def)

theorem drawBox_zero_width_counterexample:
  "frameStyle (exampleColumnSymbol Plain 0) = Plain
   \<and> width (borderAdjusted (exampleColumnRect 3 3 0 0 5 0)) = 0
   \<and> drawBox keepOuter (exampleColumnSymbol Plain 0) (exampleColumnRect 3 3 0 0 5 0) =
     [FillRect \<lparr> rect_x = 3, rect_y = 0, rect_w = 1, rect_h = 6 \<rparr> (QBrush_of_color (Color 3))]"
  by (simp add: drawBox_def drawBox_static_def column_example_defs borderAdjusted_def toRect_def
        width_def adjusted_def isValid_rect_def Let_def)

section \<open>Properties of the nearest-point query and the legend identifier\<close>






text \<open>
  Two samples whose exact squared distances differ but whose computed ones coincide:
  with a rounding that absorbs the small terms, as the rounding to doubles does at the
  samples \<open>(1 / 2 ^ 20, 1024)\<close> and \<open>(1 / 2 ^ 21, 1024)\<close>, the query returns the first
  of them.
\<close>

lemma closestPoint_loop_Cons:
  "closestPoint_loop rnd xMap yMap pos (s # ss) i (idx, d) =
     (if sqrDistance rnd xMap yMap pos s < d
      then closestPoint_loop rnd xMap yMap pos ss (i + 1) (i, sqrDistance rnd xMap yMap pos s)
      else closestPoint_loop rnd xMap yMap pos ss (i + 1) (idx, d))"
  by (simp add: sqrDistance_def Let_def)

lemma closestPoint_rounded_tie:
  assumes "rnd (1 / 1048576) = 1 / 1048576" "rnd (1 / 2097152) = 1 / 2097152"
    and "rnd 1024 = 1024" "rnd 1048576 = 1048576"
    and "rnd (1 / 1099511627776) = 1 / 1099511627776"
    and "rnd (1 / 4398046511104) = 1 / 4398046511104"
    and "rnd (1 / 1099511627776 + 1048576) = 1048576"
    and "rnd (1 / 4398046511104 + 1048576) = 1048576"
  shows "fst (closestPoint rnd
                (exampleCurve Lines 0 0 [QPointF (1 / 1048576) 1024, QPointF (1 / 2097152) 1024])
                \<lparr> ixp = 0, iyp = 0 \<rparr> None) = 0"
proof -
  let ?pos = "\<lparr> ixp = 0, iyp = 0 \<rparr>"
  have x: "\<And>a b. transform identityMap (xp (QPointF a b)) - real_of_int (ixp ?pos) = a"
    and y: "\<And>a b. transform identityMap (yp (QPointF a b)) - real_of_int (iyp ?pos) = b"
    by (simp_all add: identityMap_def)
  have e: "(1 / 1048576 :: real) * (1 / 1048576) = 1 / 1099511627776"
    "(1 / 2097152 :: real) * (1 / 2097152) = 1 / 4398046511104"
    "(1024 :: real) * 1024 = 1048576"
    by simp_all
  have f1: "sqrDistance rnd identityMap identityMap ?pos (QPointF (1 / 1048576) 1024) = 1048576"
    unfolding sqrDistance_def qwtSqr_def x y assms(1,3) e assms(4,5) assms(7) by (rule refl)
  have f2: "sqrDistance rnd identityMap identityMap ?pos (QPointF (1 / 2097152) 1024) = 1048576"
    unfolding sqrDistance_def qwtSqr_def x y assms(2,3) e assms(4,6) assms(8) by (rule refl)
  have "closestPoint_loop rnd identityMap identityMap ?pos
          [QPointF (1 / 1048576) 1024, QPointF (1 / 2097152) 1024] 0 (- 1, 10000000000) =
        (0, 1048576)"
    unfolding closestPoint_loop_Cons f1 f2 by simp
  then show ?thesis
    by (simp add: closestPoint_def exampleCurve_def dataSize_def Let_def)
qed

text \<open>
  Claim C6.  With LegendShowSymbol set, a symbol of size \<open>10 \<times> 20\<close> in a legend
  rectangle of size \<open>40 \<times> 10\<close> is drawn with size \<open>40 \<times> 10\<close>: the second scaling block
  divides by the width ratio, not the height ratio, so the width is stretched to the
  rectangle's width and the aspect ratio is lost.
\<close>

theorem legend_symbol_not_proportional:
  "scaledSymbolSize \<lparr> rect_x = 0, rect_y = 0, rect_w = 40, rect_h = 10 \<rparr> \<lparr> wd = 10, ht = 20 \<rparr> =
     Some \<lparr> wd = 40, ht = 10 \<rparr>
   \<and> drawLegendIdentifier
       ((exampleCurve Lines 0 0 []) \<lparr> legendAttributes := LegendShowSymbol,
            symbol := exampleSymbol Ellipse \<lparr> wd = 10, ht = 20 \<rparr> \<rparr>)
       \<lparr> rect_x = 0, rect_y = 0, rect_w = 40, rect_h = 10 \<rparr> =
     Some [SetBrush \<lparr> brush_style = NoBrush, brush_color = InvalidColor \<rparr>,
           SetPen (QPen_of_style SolidLine),
           DrawSymbol (exampleSymbol Ellipse \<lparr> wd = 10, ht = 20 \<rparr>)
             \<lparr> rect_x = 0, rect_y = 0, rect_w = 40, rect_h = 10 \<rparr>]"
  by (simp add: drawLegendIdentifier_def scaledSymbolSize_def qRound_def double_to_int_def
        width_def height_def isEmpty_rect_def center_def moveCenter_def setSize_def
        LegendShowSymbol_def LegendShowLine_def LegendShowBrush_def example_defs Let_def)

end
